theory Spec2Isabelle
  imports Main "HOL-Library.Word"
begin

section \<open>The document cache of the clang back end (clangdocument.cpp)\<close>

text \<open>
  A \<open>Document\<close> is a handle: its only member is the shared pointer \<open>d\<close> to a
  \<open>DocumentData\<close>. Copies of a handle share the data, and the \<open>const\<close> methods
  write through the pointer, so the data lives in an explicit heap and a handle holds an
  address or nothing. Every method is a computation over the \<open>World\<close> (the heap, the
  document set, the file system and the steady clock) that either throws or returns a
  value with the world it leaves behind.
\<close>

subsection \<open>Values\<close>

type_synonym Utf8String = string
type_synonym Utf8StringVector = "string list"

text \<open>
  A reading of \<open>std::chrono::steady_clock\<close>: a signed tick count. The document only
  stores and compares time points; it never computes with them.
\<close>
type_synonym time_point = int

text \<open>\<open>CXTranslationUnit\<close> and \<open>CXIndex\<close> are pointers of libclang; \<open>0\<close> is \<open>nullptr\<close>.\<close>
type_synonym CXTranslationUnit = nat
type_synonym CXIndex = nat

type_synonym addr = nat

text \<open>
  Modelled from the spec: the class \<open>ProjectPart\<close> (projectpart.h) is not among the
  sources. The document reads its identifier, its compiler arguments and its last change
  time point.
\<close>
record ProjectPart =
  pp_projectPartId :: Utf8String
  pp_arguments :: Utf8StringVector
  pp_lastChangeTimePoint :: time_point

text \<open>
  Modelled from the spec: an unsaved file is a path, its content and a revision; the
  unsaved files are an ordered sequence of them.
\<close>
type_synonym UnsavedFiles = "(Utf8String \<times> Utf8String \<times> 32 word) list"

text \<open>The fields of \<open>DocumentData\<close>, in the order of the class.\<close>
record DocumentData =
  d_filePath :: Utf8String
  d_fileArguments :: Utf8StringVector
  d_projectPart :: ProjectPart
  d_lastProjectPartChangeTimePoint :: time_point
  d_translationUnit :: CXTranslationUnit
  d_index :: CXIndex
  d_dependedFilePaths :: "Utf8String set"
  d_documentRevision :: "32 word"
  d_needsToBeReparsedChangeTimePoint :: time_point
  d_hasParseOrReparseFailed :: bool
  d_needsToBeReparsed :: bool
  d_isUsedByCurrentEditor :: bool
  d_isVisibleInEditor :: bool

record Document =
  d_ptr :: "addr option"

datatype FileExistsCheck = CheckIfFileExists | DoNotCheckIfFileExists

record FileContainer =
  fc_filePath :: Utf8String
  fc_projectPartId :: Utf8String
  fc_unsavedFileContent :: Utf8String
  fc_hasUnsavedFileContent :: bool
  fc_documentRevision :: "32 word"

text \<open>The fields of the update input and the update result that the document touches.\<close>
record TranslationUnitUpdateInput =
  in_parseNeeded :: bool
  in_reparseNeeded :: bool
  in_needsToBeReparsedChangeTimePoint :: time_point
  in_filePath :: Utf8String
  in_fileArguments :: Utf8StringVector
  in_unsavedFiles :: UnsavedFiles
  in_projectId :: Utf8String
  in_projectArguments :: Utf8StringVector

record TranslationUnitUpdateResult =
  res_hasParseOrReparseFailed :: bool
  res_parseTimePointIsSet :: bool
  res_parseTimePoint :: time_point
  res_reparsed :: bool
  res_needsToBeReparsedChangeTimePoint :: time_point
  res_dependedOnFilePaths :: "Utf8String set"

record TranslationUnit =
  tu_filePath :: Utf8String
  tu_index :: CXIndex
  tu_cxTranslationUnit :: CXTranslationUnit

record TranslationUnitUpdater =
  upd_index :: CXIndex
  upd_cxTranslationUnit :: CXTranslationUnit
  upd_in :: TranslationUnitUpdateInput

text \<open>
  Modelled from the spec: the class \<open>Documents\<close> (clangdocuments.h) is not among the
  sources. It holds the global set of watched file paths and hands out the current
  unsaved files.
\<close>
record Documents =
  docs_watchedFiles :: "Utf8String set"
  docs_unsavedFiles :: UnsavedFiles

subsection \<open>The world and the computations over it\<close>

text \<open>
  \<open>heap\<close> gives the data behind every address; addresses below \<open>heapTop\<close> have been
  handed out by \<open>std::make_shared\<close>. \<open>documents\<close> is the document set every
  \<open>DocumentData\<close> refers to, \<open>fileSystem\<close> the paths for which \<open>QFileInfo::exists\<close>
  holds, \<open>steadyClock\<close> the current reading of the steady clock.
\<close>
record World =
  heap :: "addr \<Rightarrow> DocumentData"
  heapTop :: addr
  documents :: Documents
  fileSystem :: "Utf8String set"
  steadyClock :: time_point

text \<open>
  \<open>NullPointerDereference\<close> stands for the undefined behaviour of \<open>d->\<close> on an empty
  shared pointer; the two others are the exceptions of clangexceptions.h.
\<close>
datatype error =
    DocumentIsNullException
  | DocumentFileDoesNotExistException Utf8String
  | NullPointerDereference

type_synonym 'a M = "World \<Rightarrow> error + ('a \<times> World)"

definition returnM :: "'a \<Rightarrow> 'a M" where
  "returnM x w = Inr (x, w)"

definition throwM :: "error \<Rightarrow> 'a M" where
  "throwM e w = Inl e"

definition bindM :: "'a M \<Rightarrow> ('a \<Rightarrow> 'b M) \<Rightarrow> 'b M" where
  "bindM m f w = (case m w of Inl e \<Rightarrow> Inl e | Inr (x, w') \<Rightarrow> f x w')"

text \<open>Reading \<open>*d\<close> and writing through \<open>d->\<close>.\<close>
definition deref :: "Document \<Rightarrow> DocumentData M" where
  "deref D w = (case d_ptr D of
      None \<Rightarrow> Inl NullPointerDereference
    | Some a \<Rightarrow> Inr (heap w a, w))"

definition modify :: "Document \<Rightarrow> (DocumentData \<Rightarrow> DocumentData) \<Rightarrow> unit M" where
  "modify D f w = (case d_ptr D of
      None \<Rightarrow> Inl NullPointerDereference
    | Some a \<Rightarrow> Inr ((), w\<lparr>heap := (heap w)(a := f (heap w a))\<rparr>))"

definition QFileInfo_exists :: "Utf8String \<Rightarrow> bool M" where
  "QFileInfo_exists p w = Inr (p \<in> fileSystem w, w)"

definition steady_clock_now :: "time_point M" where
  "steady_clock_now w = Inr (steadyClock w, w)"

text \<open>
  The steady clock never goes back: between two readings it advances by some amount
  \<open>k \<ge> 0\<close>.
\<close>
definition elapse :: "nat \<Rightarrow> World \<Rightarrow> World" where
  "elapse k w = w\<lparr>steadyClock := steadyClock w + int k\<rparr>"

text \<open>
  Modelled from the spec: \<open>Documents::addWatchedFiles\<close> unions the paths into the
  global watch set, and \<open>Documents::unsavedFiles\<close> returns the current overrides.
\<close>
definition Documents_addWatchedFiles :: "Utf8String set \<Rightarrow> unit M" where
  "Documents_addWatchedFiles paths w =
     Inr ((), w\<lparr>documents := (documents w)\<lparr>docs_watchedFiles :=
                  docs_watchedFiles (documents w) \<union> paths\<rparr>\<rparr>)"

definition Documents_unsavedFiles :: "UnsavedFiles M" where
  "Documents_unsavedFiles w = Inr (docs_unsavedFiles (documents w), w)"

subsection \<open>The methods of Document\<close>

definition isNull :: "Document \<Rightarrow> bool M" where
  "isNull D = returnM (d_ptr D = None)"

definition checkIfNull :: "Document \<Rightarrow> unit M" where
  "checkIfNull D =
     bindM (isNull D) (\<lambda>n. if n then throwM DocumentIsNullException else returnM ())"

definition fileExists :: "Document \<Rightarrow> bool M" where
  "fileExists D = bindM (deref D) (\<lambda>dd. QFileInfo_exists (d_filePath dd))"

definition checkIfFileExists :: "Document \<Rightarrow> unit M" where
  "checkIfFileExists D =
     bindM (fileExists D) (\<lambda>fe.
       if \<not> fe
       then bindM (deref D) (\<lambda>dd. throwM (DocumentFileDoesNotExistException (d_filePath dd)))
       else returnM ())"

text \<open>\<open>&&\<close> evaluates its right operand only when the left one holds.\<close>
definition isIntact :: "Document \<Rightarrow> bool M" where
  "isIntact D =
     bindM (isNull D) (\<lambda>n.
       if n then returnM False
       else bindM (fileExists D) (\<lambda>fe.
         if \<not> fe then returnM False
         else bindM (deref D) (\<lambda>dd. returnM (\<not> d_hasParseOrReparseFailed dd))))"

definition filePath :: "Document \<Rightarrow> Utf8String M" where
  "filePath D = bindM (checkIfNull D) (\<lambda>_. bindM (deref D) (\<lambda>dd. returnM (d_filePath dd)))"

definition fileArguments :: "Document \<Rightarrow> Utf8StringVector M" where
  "fileArguments D =
     bindM (checkIfNull D) (\<lambda>_. bindM (deref D) (\<lambda>dd. returnM (d_fileArguments dd)))"

definition fileContainer :: "Document \<Rightarrow> FileContainer M" where
  "fileContainer D =
     bindM (checkIfNull D) (\<lambda>_. bindM (deref D) (\<lambda>dd.
       returnM \<lparr>fc_filePath = d_filePath dd,
                fc_projectPartId = pp_projectPartId (d_projectPart dd),
                fc_unsavedFileContent = [],
                fc_hasUnsavedFileContent = False,
                fc_documentRevision = d_documentRevision dd\<rparr>))"

definition projectPartId :: "Document \<Rightarrow> Utf8String M" where
  "projectPartId D =
     bindM (checkIfNull D) (\<lambda>_. bindM (deref D) (\<lambda>dd.
       returnM (pp_projectPartId (d_projectPart dd))))"

definition projectPart :: "Document \<Rightarrow> ProjectPart M" where
  "projectPart D =
     bindM (checkIfNull D) (\<lambda>_. bindM (deref D) (\<lambda>dd. returnM (d_projectPart dd)))"

definition lastProjectPartChangeTimePoint :: "Document \<Rightarrow> time_point M" where
  "lastProjectPartChangeTimePoint D =
     bindM (checkIfNull D) (\<lambda>_. bindM (deref D) (\<lambda>dd.
       returnM (d_lastProjectPartChangeTimePoint dd)))"

definition isProjectPartOutdated :: "Document \<Rightarrow> bool M" where
  "isProjectPartOutdated D =
     bindM (checkIfNull D) (\<lambda>_. bindM (deref D) (\<lambda>dd.
       returnM (pp_lastChangeTimePoint (d_projectPart dd)
                  \<ge> d_lastProjectPartChangeTimePoint dd)))"

definition documentRevision :: "Document \<Rightarrow> 32 word M" where
  "documentRevision D =
     bindM (checkIfNull D) (\<lambda>_. bindM (deref D) (\<lambda>dd. returnM (d_documentRevision dd)))"

definition setDocumentRevision :: "32 word \<Rightarrow> Document \<Rightarrow> unit M" where
  "setDocumentRevision revision D =
     bindM (checkIfNull D) (\<lambda>_. modify D (\<lambda>dd. dd\<lparr>d_documentRevision := revision\<rparr>))"

definition isUsedByCurrentEditor :: "Document \<Rightarrow> bool M" where
  "isUsedByCurrentEditor D =
     bindM (checkIfNull D) (\<lambda>_. bindM (deref D) (\<lambda>dd. returnM (d_isUsedByCurrentEditor dd)))"

definition setIsUsedByCurrentEditor :: "bool \<Rightarrow> Document \<Rightarrow> unit M" where
  "setIsUsedByCurrentEditor b D =
     bindM (checkIfNull D) (\<lambda>_. modify D (\<lambda>dd. dd\<lparr>d_isUsedByCurrentEditor := b\<rparr>))"

definition isVisibleInEditor :: "Document \<Rightarrow> bool M" where
  "isVisibleInEditor D =
     bindM (checkIfNull D) (\<lambda>_. bindM (deref D) (\<lambda>dd. returnM (d_isVisibleInEditor dd)))"

definition setIsVisibleInEditor :: "bool \<Rightarrow> Document \<Rightarrow> unit M" where
  "setIsVisibleInEditor b D =
     bindM (checkIfNull D) (\<lambda>_. modify D (\<lambda>dd. dd\<lparr>d_isVisibleInEditor := b\<rparr>))"

definition isNeededReparseChangeTimePoint :: "Document \<Rightarrow> time_point M" where
  "isNeededReparseChangeTimePoint D =
     bindM (checkIfNull D) (\<lambda>_. bindM (deref D) (\<lambda>dd.
       returnM (d_needsToBeReparsedChangeTimePoint dd)))"

definition isNeedingReparse :: "Document \<Rightarrow> bool M" where
  "isNeedingReparse D =
     bindM (checkIfNull D) (\<lambda>_. bindM (deref D) (\<lambda>dd. returnM (d_needsToBeReparsed dd)))"

definition setDirty :: "Document \<Rightarrow> unit M" where
  "setDirty D =
     bindM steady_clock_now (\<lambda>t.
     bindM (modify D (\<lambda>dd. dd\<lparr>d_needsToBeReparsedChangeTimePoint := t\<rparr>)) (\<lambda>_.
       modify D (\<lambda>dd. dd\<lparr>d_needsToBeReparsed := True\<rparr>)))"

definition setDirtyIfProjectPartIsOutdated :: "Document \<Rightarrow> unit M" where
  "setDirtyIfProjectPartIsOutdated D =
     bindM (isProjectPartOutdated D) (\<lambda>outdated. if outdated then setDirty D else returnM ())"

definition isMainFileAndExistsOrIsOtherFile :: "Utf8String \<Rightarrow> Document \<Rightarrow> bool M" where
  "isMainFileAndExistsOrIsOtherFile path D =
     bindM (deref D) (\<lambda>dd.
       if path = d_filePath dd then QFileInfo_exists (d_filePath dd) else returnM True)"

definition setDirtyIfDependencyIsMet :: "Utf8String \<Rightarrow> Document \<Rightarrow> unit M" where
  "setDirtyIfDependencyIsMet path D =
     bindM (deref D) (\<lambda>dd.
       if path \<in> d_dependedFilePaths dd
       then bindM (isMainFileAndExistsOrIsOtherFile path D) (\<lambda>ok.
              if ok then setDirty D else returnM ())
       else returnM ())"

definition createUpdateInput :: "Document \<Rightarrow> TranslationUnitUpdateInput M" where
  "createUpdateInput D =
     bindM (isProjectPartOutdated D) (\<lambda>parseNeeded.
     bindM (isNeedingReparse D) (\<lambda>reparseNeeded.
     bindM (deref D) (\<lambda>dd.
     bindM (filePath D) (\<lambda>fp.
     bindM (fileArguments D) (\<lambda>fa.
     bindM Documents_unsavedFiles (\<lambda>unsaved.
     bindM (projectPart D) (\<lambda>pp1.
     bindM (projectPart D) (\<lambda>pp2.
       returnM \<lparr>in_parseNeeded = parseNeeded,
                in_reparseNeeded = reparseNeeded,
                in_needsToBeReparsedChangeTimePoint = d_needsToBeReparsedChangeTimePoint dd,
                in_filePath = fp,
                in_fileArguments = fa,
                in_unsavedFiles = unsaved,
                in_projectId = pp_projectPartId pp1,
                in_projectArguments = pp_arguments pp2\<rparr>))))))))"

definition createUpdater :: "Document \<Rightarrow> TranslationUnitUpdater M" where
  "createUpdater D =
     bindM (createUpdateInput D) (\<lambda>updateInput.
     bindM (deref D) (\<lambda>dd.
       returnM \<lparr>upd_index = d_index dd,
                upd_cxTranslationUnit = d_translationUnit dd,
                upd_in = updateInput\<rparr>))"

definition setHasParseOrReparseFailed :: "bool \<Rightarrow> Document \<Rightarrow> unit M" where
  "setHasParseOrReparseFailed hasFailed D =
     modify D (\<lambda>dd. dd\<lparr>d_hasParseOrReparseFailed := hasFailed\<rparr>)"

definition incorporateUpdaterResult :: "TranslationUnitUpdateResult \<Rightarrow> Document \<Rightarrow> unit M" where
  "incorporateUpdaterResult result D =
     bindM (modify D (\<lambda>dd. dd\<lparr>d_hasParseOrReparseFailed :=
                                   res_hasParseOrReparseFailed result\<rparr>)) (\<lambda>_.
     bindM (deref D) (\<lambda>dd.
       if d_hasParseOrReparseFailed dd
       then modify D (\<lambda>dd. dd\<lparr>d_needsToBeReparsed := False\<rparr>)
       else
         bindM (if res_parseTimePointIsSet result
                then modify D (\<lambda>dd. dd\<lparr>d_lastProjectPartChangeTimePoint :=
                                              res_parseTimePoint result\<rparr>)
                else returnM ()) (\<lambda>_.
         bindM (if res_parseTimePointIsSet result \<or> res_reparsed result
                then modify D (\<lambda>dd. dd\<lparr>d_dependedFilePaths :=
                                              res_dependedOnFilePaths result\<rparr>)
                else returnM ()) (\<lambda>_.
         bindM (deref D) (\<lambda>dd.
         bindM (Documents_addWatchedFiles (d_dependedFilePaths dd)) (\<lambda>_.
         bindM (deref D) (\<lambda>dd.
           if res_reparsed result
              \<and> res_needsToBeReparsedChangeTimePoint result
                  = d_needsToBeReparsedChangeTimePoint dd
           then modify D (\<lambda>dd. dd\<lparr>d_needsToBeReparsed := False\<rparr>)
           else returnM ())))))))"

definition translationUnit :: "Document \<Rightarrow> TranslationUnit M" where
  "translationUnit D =
     bindM (checkIfNull D) (\<lambda>_. bindM (deref D) (\<lambda>dd.
       returnM \<lparr>tu_filePath = d_filePath dd,
                tu_index = d_index dd,
                tu_cxTranslationUnit = d_translationUnit dd\<rparr>))"

text \<open>
  \<open>TranslationUnit::parse\<close> and \<open>TranslationUnit::reparse\<close> run the external parser
  (clangtranslationunit.cpp, not among the sources). A \<open>TranslationUnit\<close> holds
  references to the index and the translation unit of the document, so the parser may
  replace both; here it is any function from the translation unit and the update input
  to a result and the two new pointers, which the document stores back.
\<close>
type_synonym Parser =
  "TranslationUnit \<Rightarrow> TranslationUnitUpdateInput
     \<Rightarrow> TranslationUnitUpdateResult \<times> CXIndex \<times> CXTranslationUnit"

definition runParser :: "Parser \<Rightarrow> TranslationUnit \<Rightarrow> TranslationUnitUpdateInput
    \<Rightarrow> Document \<Rightarrow> TranslationUnitUpdateResult M" where
  "runParser ext tu updateInput D =
     (case ext tu updateInput of (result, idx, cx) \<Rightarrow>
        bindM (modify D (\<lambda>dd. dd\<lparr>d_index := idx, d_translationUnit := cx\<rparr>)) (\<lambda>_.
          returnM result))"

definition parse :: "Parser \<Rightarrow> Document \<Rightarrow> unit M" where
  "parse tuParse D =
     bindM (checkIfNull D) (\<lambda>_.
     bindM (createUpdateInput D) (\<lambda>updateInput.
     bindM (translationUnit D) (\<lambda>tu.
     bindM (runParser tuParse tu updateInput D) (\<lambda>result.
       incorporateUpdaterResult result D))))"

definition reparse :: "Parser \<Rightarrow> Document \<Rightarrow> unit M" where
  "reparse tuReparse D =
     bindM (checkIfNull D) (\<lambda>_.
     bindM (createUpdateInput D) (\<lambda>updateInput.
     bindM (translationUnit D) (\<lambda>tu.
     bindM (runParser tuReparse tu updateInput D) (\<lambda>result.
       incorporateUpdaterResult result D))))"

definition dependedFilePaths :: "Document \<Rightarrow> Utf8String set M" where
  "dependedFilePaths D =
     bindM (checkIfNull D) (\<lambda>_.
     bindM (checkIfFileExists D) (\<lambda>_.
     bindM (deref D) (\<lambda>dd. returnM (d_dependedFilePaths dd))))"

subsection \<open>Construction, reset and move of a handle\<close>

definition DocumentData_new ::
    "Utf8String \<Rightarrow> ProjectPart \<Rightarrow> Utf8StringVector \<Rightarrow> DocumentData M" where
  "DocumentData_new path part args =
     bindM steady_clock_now (\<lambda>t.
       returnM \<lparr>d_filePath = path,
                d_fileArguments = args,
                d_projectPart = part,
                d_lastProjectPartChangeTimePoint = t,
                d_translationUnit = 0,
                d_index = 0,
                d_dependedFilePaths = insert path {},
                d_documentRevision = 0,
                d_needsToBeReparsedChangeTimePoint = t,
                d_hasParseOrReparseFailed = False,
                d_needsToBeReparsed = False,
                d_isUsedByCurrentEditor = False,
                d_isVisibleInEditor = False\<rparr>)"

definition make_shared :: "DocumentData \<Rightarrow> Document M" where
  "make_shared dd w =
     Inr (\<lparr>d_ptr = Some (heapTop w)\<rparr>,
          w\<lparr>heap := (heap w)(heapTop w := dd), heapTop := Suc (heapTop w)\<rparr>)"

definition Document_new ::
    "Utf8String \<Rightarrow> ProjectPart \<Rightarrow> Utf8StringVector \<Rightarrow> FileExistsCheck \<Rightarrow> Document M" where
  "Document_new path part args fileExistsCheck =
     bindM (DocumentData_new path part args) (\<lambda>dd.
     bindM (make_shared dd) (\<lambda>D.
     bindM (if fileExistsCheck = CheckIfFileExists then checkIfFileExists D
            else returnM ()) (\<lambda>_.
       returnM D)))"

text \<open>
  \<open>reset\<close> and the move operations change handles, not the data behind them. A moved-from
  \<open>std::shared_ptr\<close> is empty. Both moves give the handles after the call: the
  constructed or assigned one first, then the source of the move; in the assignment
  \<open>this\<close> and \<open>other\<close> are two objects. Reference counts, and with them the destructor
  of a \<open>DocumentData\<close> that lost its last handle, are outside the model.
\<close>
definition reset :: "Document \<Rightarrow> Document" where
  "reset D = D\<lparr>d_ptr := None\<rparr>"

definition Document_move :: "Document \<Rightarrow> Document \<times> Document" where
  "Document_move other = (\<lparr>d_ptr = d_ptr other\<rparr>, other\<lparr>d_ptr := None\<rparr>)"

definition Document_move_assign :: "Document \<Rightarrow> Document \<Rightarrow> Document \<times> Document" where
  "Document_move_assign this other = (this\<lparr>d_ptr := d_ptr other\<rparr>, other\<lparr>d_ptr := None\<rparr>)"

subsection \<open>A concrete scenario\<close>

text \<open>
  The document of \<open>/a.cpp\<close> in project \<open>P1\<close>, created at clock reading 100 in an empty
  heap, with \<open>/a.cpp\<close> and \<open>/a.h\<close> on disk.
\<close>
definition blankData :: DocumentData where
  "blankData = \<lparr>d_filePath = [], d_fileArguments = [],
      d_projectPart = \<lparr>pp_projectPartId = [], pp_arguments = [], pp_lastChangeTimePoint = 0\<rparr>,
      d_lastProjectPartChangeTimePoint = 0, d_translationUnit = 0, d_index = 0,
      d_dependedFilePaths = {}, d_documentRevision = 0,
      d_needsToBeReparsedChangeTimePoint = 0, d_hasParseOrReparseFailed = False,
      d_needsToBeReparsed = False, d_isUsedByCurrentEditor = False,
      d_isVisibleInEditor = False\<rparr>"

definition P1 :: ProjectPart where
  "P1 = \<lparr>pp_projectPartId = ''P1'', pp_arguments = [''-std=c++14''],
         pp_lastChangeTimePoint = 50\<rparr>"

definition world0 :: World where
  "world0 = \<lparr>heap = (\<lambda>_. blankData), heapTop = 0,
      documents = \<lparr>docs_watchedFiles = {}, docs_unsavedFiles = []\<rparr>,
      fileSystem = {''/a.cpp'', ''/a.h''}, steadyClock = 100\<rparr>"

definition aData :: DocumentData where
  "aData = \<lparr>d_filePath = ''/a.cpp'', d_fileArguments = [],
      d_projectPart = P1,
      d_lastProjectPartChangeTimePoint = 100, d_translationUnit = 0, d_index = 0,
      d_dependedFilePaths = {''/a.cpp''}, d_documentRevision = 0,
      d_needsToBeReparsedChangeTimePoint = 100, d_hasParseOrReparseFailed = False,
      d_needsToBeReparsed = False, d_isUsedByCurrentEditor = False,
      d_isVisibleInEditor = False\<rparr>"

definition aDoc :: Document where
  "aDoc = \<lparr>d_ptr = Some 0\<rparr>"

definition world1 :: World where
  "world1 = \<lparr>heap = (\<lambda>_. blankData)(0 := aData), heapTop = Suc 0,
      documents = \<lparr>docs_watchedFiles = {}, docs_unsavedFiles = []\<rparr>,
      fileSystem = {''/a.cpp'', ''/a.h''}, steadyClock = 100\<rparr>"

text \<open>The same, with a project part that changed at the instant the document was created.\<close>
definition worldSameInstant :: World where
  "worldSameInstant = world1\<lparr>heap := (heap world1)(0 := aData\<lparr>d_projectPart :=
      P1\<lparr>pp_lastChangeTimePoint := 100\<rparr>\<rparr>)\<rparr>"

text \<open>After \<open>setDirty()\<close> at clock reading 100.\<close>
definition worldDirty :: World where
  "worldDirty = world1\<lparr>heap := (heap world1)(0 := aData\<lparr>d_needsToBeReparsed := True\<rparr>)\<rparr>"

text \<open>The file of the document has been deleted; \<open>/a.h\<close> is still there.\<close>
definition worldDeleted :: World where
  "worldDeleted = world1\<lparr>fileSystem := {''/a.h''}\<rparr>"

text \<open>A failure has been recorded for the document.\<close>
definition worldFailed :: World where
  "worldFailed = world1\<lparr>heap := (heap world1)(0 := aData\<lparr>d_hasParseOrReparseFailed := True\<rparr>)\<rparr>"

text \<open>
  Four results of the updater: a failure, a reparse that was requested at 100, the
  default-constructed result of an update that found nothing to do, and a first parse.
\<close>
definition failedResult :: TranslationUnitUpdateResult where
  "failedResult = \<lparr>res_hasParseOrReparseFailed = True, res_parseTimePointIsSet = False,
      res_parseTimePoint = 0, res_reparsed = False,
      res_needsToBeReparsedChangeTimePoint = 0, res_dependedOnFilePaths = {}\<rparr>"

definition reparsedResult :: TranslationUnitUpdateResult where
  "reparsedResult = \<lparr>res_hasParseOrReparseFailed = False, res_parseTimePointIsSet = False,
      res_parseTimePoint = 0, res_reparsed = True,
      res_needsToBeReparsedChangeTimePoint = 100,
      res_dependedOnFilePaths = {''/a.cpp'', ''/a.h''}\<rparr>"

definition nothingResult :: TranslationUnitUpdateResult where
  "nothingResult = \<lparr>res_hasParseOrReparseFailed = False, res_parseTimePointIsSet = False,
      res_parseTimePoint = 0, res_reparsed = False,
      res_needsToBeReparsedChangeTimePoint = 0, res_dependedOnFilePaths = {}\<rparr>"

definition parsedResult :: TranslationUnitUpdateResult where
  "parsedResult = \<lparr>res_hasParseOrReparseFailed = False, res_parseTimePointIsSet = True,
      res_parseTimePoint = 100, res_reparsed = False,
      res_needsToBeReparsedChangeTimePoint = 0,
      res_dependedOnFilePaths = {''/a.cpp'', ''/a.h''}\<rparr>"

text \<open>An external parser that returns a fixed result and fresh libclang pointers.\<close>
definition parserReturning :: "TranslationUnitUpdateResult \<Rightarrow> Parser" where
  "parserReturning r tu updateInput = (r, 1, 1)"

definition nullDoc :: Document where
  "nullDoc = reset aDoc"

section \<open>Properties\<close>

lemmas M_defs = returnM_def throwM_def bindM_def deref_def modify_def
  QFileInfo_exists_def steady_clock_now_def Documents_addWatchedFiles_def
  Documents_unsavedFiles_def isNull_def checkIfNull_def

lemma Document_new_scenario:
  "Document_new ''/a.cpp'' P1 [] CheckIfFileExists world0 = Inr (aDoc, world1)"
  by (simp add: Document_new_def DocumentData_new_def make_shared_def checkIfFileExists_def
      fileExists_def M_defs world0_def world1_def aDoc_def aData_def)

lemma setDirty_scenario:
  "setDirty aDoc world1 = Inr ((), worldDirty)"
  by (simp add: setDirty_def M_defs world1_def worldDirty_def aDoc_def aData_def)

lemmas accessor_defs = filePath_def fileArguments_def fileContainer_def projectPartId_def
  projectPart_def lastProjectPartChangeTimePoint_def isProjectPartOutdated_def
  documentRevision_def setDocumentRevision_def isUsedByCurrentEditor_def
  setIsUsedByCurrentEditor_def isVisibleInEditor_def setIsVisibleInEditor_def
  isNeededReparseChangeTimePoint_def isNeedingReparse_def translationUnit_def
  fileExists_def checkIfFileExists_def

lemmas scenario_defs = aDoc_def aData_def world1_def P1_def nullDoc_def reset_def
  worldSameInstant_def worldDirty_def worldDeleted_def failedResult_def reparsedResult_def
  nothingResult_def parsedResult_def parserReturning_def worldFailed_def

subsection \<open>What each mutator does to a document with backing state\<close>

lemma setDirty_Some:
  "d_ptr D = Some a \<Longrightarrow>
   setDirty D w = Inr ((), w\<lparr>heap := (heap w)(a := (heap w a)
       \<lparr>d_needsToBeReparsedChangeTimePoint := steadyClock w,
        d_needsToBeReparsed := True\<rparr>)\<rparr>)"
  by (simp add: setDirty_def M_defs)

lemma incorporate_succeeded:
  "d_ptr D = Some a \<Longrightarrow> \<not> res_hasParseOrReparseFailed r \<Longrightarrow>
   \<exists>w'. incorporateUpdaterResult r D w = Inr ((), w')
     \<and> d_needsToBeReparsed (heap w' a) =
          (d_needsToBeReparsed (heap w a)
           \<and> \<not> (res_reparsed r \<and> res_needsToBeReparsedChangeTimePoint r
                    = d_needsToBeReparsedChangeTimePoint (heap w a)))
     \<and> d_dependedFilePaths (heap w' a) =
          (if res_parseTimePointIsSet r \<or> res_reparsed r then res_dependedOnFilePaths r
           else d_dependedFilePaths (heap w a))"
  by (simp add: incorporateUpdaterResult_def M_defs)

lemma createUpdateInput_Some:
  "d_ptr D = Some a \<Longrightarrow>
   createUpdateInput D w =
     Inr (\<lparr>in_parseNeeded = pp_lastChangeTimePoint (d_projectPart (heap w a))
                                \<ge> d_lastProjectPartChangeTimePoint (heap w a),
           in_reparseNeeded = d_needsToBeReparsed (heap w a),
           in_needsToBeReparsedChangeTimePoint = d_needsToBeReparsedChangeTimePoint (heap w a),
           in_filePath = d_filePath (heap w a),
           in_fileArguments = d_fileArguments (heap w a),
           in_unsavedFiles = docs_unsavedFiles (documents w),
           in_projectId = pp_projectPartId (d_projectPart (heap w a)),
           in_projectArguments = pp_arguments (d_projectPart (heap w a))\<rparr>, w)"
  by (simp add: createUpdateInput_def accessor_defs M_defs)

lemma aDoc_ptr: "d_ptr aDoc = Some 0"
  by (simp add: aDoc_def)

subsection \<open>Intactness\<close>

text \<open>
  C3. \<open>isIntact()\<close> never throws and changes nothing; it returns true exactly when the
  handle points to a \<open>DocumentData\<close> whose file path is among the paths that exist on
  disk and whose \<open>hasParseOrReparseFailed\<close> is false. In terms of the methods: exactly
  when \<open>isNull()\<close> returns false, \<open>fileExists()\<close> returns true and no failure is
  recorded, where \<open>isNull()\<close> tells whether the pointer is empty and \<open>fileExists()\<close>
  tells whether the file path is on disk. For a null document the answer is false, the
  two other conditions not being looked at.
\<close>
theorem isIntact_iff:
  "isIntact D w =
     Inr ((\<exists>a. d_ptr D = Some a
               \<and> d_filePath (heap w a) \<in> fileSystem w
               \<and> \<not> d_hasParseOrReparseFailed (heap w a)), w)
   \<and> isNull D w = Inr (d_ptr D = None, w)
   \<and> fileExists D w =
       (case d_ptr D of
          None \<Rightarrow> Inl NullPointerDereference
        | Some a \<Rightarrow> Inr (d_filePath (heap w a) \<in> fileSystem w, w))
   \<and> isIntact D w =
     Inr (isNull D w = Inr (False, w)
          \<and> fileExists D w = Inr (True, w)
          \<and> (\<exists>a. d_ptr D = Some a \<and> \<not> d_hasParseOrReparseFailed (heap w a)), w)"
  by (cases "d_ptr D") (auto simp: isIntact_def fileExists_def M_defs)

text \<open>
  The document of the scenario is intact; it is not once its file has been deleted, nor
  once a failure has been recorded, and the null document is not.
\<close>
theorem isIntact_iff_witness:
  "isIntact aDoc world1 = Inr (True, world1)
   \<and> ''/a.cpp'' \<notin> fileSystem worldDeleted
   \<and> isIntact aDoc worldDeleted = Inr (False, worldDeleted)
   \<and> isIntact aDoc worldFailed = Inr (False, worldFailed)
   \<and> isIntact nullDoc world1 = Inr (False, world1)"
  using isIntact_iff [of aDoc world1] isIntact_iff [of aDoc worldDeleted]
    isIntact_iff [of aDoc worldFailed] isIntact_iff [of nullDoc world1]
  by (simp add: scenario_defs)

subsection \<open>Staleness against the project part\<close>

text \<open>
  C7. For a document with backing state, \<open>isProjectPartOutdated()\<close> returns true exactly
  when the last change time point of the project part is at or after the recorded
  \<open>lastProjectPartChangeTimePoint\<close>; equal time points count as outdated.
\<close>
theorem isProjectPartOutdated_iff:
  assumes "d_ptr D = Some a"
  shows "isProjectPartOutdated D w =
     Inr (d_lastProjectPartChangeTimePoint (heap w a)
            \<le> pp_lastChangeTimePoint (d_projectPart (heap w a)), w)
   \<and> (pp_lastChangeTimePoint (d_projectPart (heap w a))
         = d_lastProjectPartChangeTimePoint (heap w a)
       \<longrightarrow> isProjectPartOutdated D w = Inr (True, w))"
  using assms by (simp add: isProjectPartOutdated_def M_defs)

text \<open>The boundary: project part changed at 100, document synced at 100.\<close>
theorem isProjectPartOutdated_iff_witness:
  "d_ptr aDoc = Some 0
   \<and> pp_lastChangeTimePoint (d_projectPart
        (heap worldSameInstant 0)) = 100
   \<and> d_lastProjectPartChangeTimePoint
        (heap worldSameInstant 0) = 100
   \<and> isProjectPartOutdated aDoc
        worldSameInstant
       = Inr (True, worldSameInstant)"
  using isProjectPartOutdated_iff [OF aDoc_ptr,
      of worldSameInstant]
  by (simp add: scenario_defs)

subsection \<open>Building the update input\<close>

text \<open>
  C9. For a document with backing state, \<open>createUpdateInput()\<close> returns the world it was
  called in, so no field of the document, of the document set, or anything else has
  changed; the input it returns is made of the current fields of the document, the
  project part and the unsaved files of the document set.
\<close>
theorem createUpdateInput_pure:
  assumes "d_ptr D = Some a"
  shows "createUpdateInput D w =
     Inr (\<lparr>in_parseNeeded = d_lastProjectPartChangeTimePoint (heap w a)
                                \<le> pp_lastChangeTimePoint (d_projectPart (heap w a)),
           in_reparseNeeded = d_needsToBeReparsed (heap w a),
           in_needsToBeReparsedChangeTimePoint = d_needsToBeReparsedChangeTimePoint (heap w a),
           in_filePath = d_filePath (heap w a),
           in_fileArguments = d_fileArguments (heap w a),
           in_unsavedFiles = docs_unsavedFiles (documents w),
           in_projectId = pp_projectPartId (d_projectPart (heap w a)),
           in_projectArguments = pp_arguments (d_projectPart (heap w a))\<rparr>, w)"
  using assms by (simp add: createUpdateInput_def accessor_defs M_defs)

theorem createUpdateInput_pure_witness:
  "d_ptr aDoc = Some 0
   \<and> createUpdateInput aDoc world1 =
     Inr (\<lparr>in_parseNeeded = False,
           in_reparseNeeded = False,
           in_needsToBeReparsedChangeTimePoint = 100,
           in_filePath = ''/a.cpp'',
           in_fileArguments = [],
           in_unsavedFiles = [],
           in_projectId = ''P1'',
           in_projectArguments = [''-std=c++14'']\<rparr>, world1)"
  using createUpdateInput_pure [OF aDoc_ptr, of world1]
  by (simp add: scenario_defs)

subsection \<open>Moving a handle\<close>

text \<open>
  C10. After a document has been move-constructed or move-assigned from \<open>other\<close>,
  \<open>other.isNull()\<close> returns true, and the destination points to the data \<open>other\<close>
  pointed to: the same address in an unchanged heap (or null, when \<open>other\<close> was null).
\<close>
theorem move_leaves_source_null:
  "(case Document_move other of (dst, src) \<Rightarrow>
      isNull src w = Inr (True, w) \<and> d_ptr dst = d_ptr other \<and> deref dst w = deref other w)
   \<and> (case Document_move_assign this other of (dst, src) \<Rightarrow>
      isNull src w = Inr (True, w) \<and> d_ptr dst = d_ptr other \<and> deref dst w = deref other w)"
  by (simp add: Document_move_def Document_move_assign_def M_defs)

subsection \<open>Marking a document dirty\<close>

text \<open>
  C8. For a document with backing state: after \<open>setDirty()\<close> the flag
  \<open>needsToBeReparsed\<close> is true, whatever it was; a second call, after the steady clock
  has advanced by any \<open>k \<ge> 0\<close>, leaves the flag true and stores a time point that is not
  earlier than the one the first call stored. When the clock has not moved, the second
  call changes nothing at all.
\<close>
theorem setDirty_twice:
  assumes "d_ptr D = Some a"
  shows "\<exists>w1 w2.
      setDirty D w = Inr ((), w1) \<and> d_needsToBeReparsed (heap w1 a)
    \<and> d_needsToBeReparsedChangeTimePoint (heap w1 a) = steadyClock w
    \<and> setDirty D (elapse k w1) = Inr ((), w2) \<and> d_needsToBeReparsed (heap w2 a)
    \<and> d_needsToBeReparsedChangeTimePoint (heap w1 a)
         \<le> d_needsToBeReparsedChangeTimePoint (heap w2 a)
    \<and> setDirty D w1 = Inr ((), w1)"
  using assms by (simp add: setDirty_def elapse_def M_defs)

theorem setDirty_twice_witness:
  "d_ptr aDoc = Some 0
   \<and> (\<exists>w1 w2.
      setDirty aDoc world1 = Inr ((), w1) \<and> d_needsToBeReparsed (heap w1 0)
    \<and> d_needsToBeReparsedChangeTimePoint (heap w1 0) = 100
    \<and> setDirty aDoc (elapse 7 w1) = Inr ((), w2) \<and> d_needsToBeReparsed (heap w2 0)
    \<and> d_needsToBeReparsedChangeTimePoint (heap w1 0)
         \<le> d_needsToBeReparsedChangeTimePoint (heap w2 0)
    \<and> setDirty aDoc w1 = Inr ((), w1))"
proof -
  have clock: "steadyClock world1 = 100"
    by (simp add: world1_def)
  show ?thesis
    using setDirty_twice [OF aDoc_ptr, of world1 7] aDoc_ptr unfolding clock by simp
qed

text \<open>
  C4. For a document with backing state, \<open>setDirtyIfDependencyIsMet(p)\<close> does what
  \<open>setDirty()\<close> does (flag true, time point read from the clock) when \<open>p\<close> is among the
  depended file paths and either \<open>p\<close> is not the path of the document or that path
  exists on disk; in every other case it changes nothing. So with the document's own
  path, when that file is gone, nothing is marked.
\<close>
theorem setDirtyIfDependencyIsMet_iff:
  assumes "d_ptr D = Some a"
  shows "setDirtyIfDependencyIsMet p D w =
      (if p \<in> d_dependedFilePaths (heap w a)
          \<and> (p \<noteq> d_filePath (heap w a) \<or> d_filePath (heap w a) \<in> fileSystem w)
       then Inr ((), w\<lparr>heap := (heap w)(a := (heap w a)
              \<lparr>d_needsToBeReparsedChangeTimePoint := steadyClock w,
               d_needsToBeReparsed := True\<rparr>)\<rparr>)
       else Inr ((), w))
    \<and> (d_filePath (heap w a) \<notin> fileSystem w
        \<longrightarrow> setDirtyIfDependencyIsMet (d_filePath (heap w a)) D w = Inr ((), w))"
  using assms
  by (simp add: setDirtyIfDependencyIsMet_def isMainFileAndExistsOrIsOtherFile_def
      setDirty_def M_defs)

text \<open>The own file deleted: nothing happens. The own file still there: marked dirty.\<close>
theorem setDirtyIfDependencyIsMet_iff_witness:
  "d_ptr aDoc = Some 0
   \<and> d_filePath (heap worldDeleted 0) = ''/a.cpp''
   \<and> ''/a.cpp'' \<in> d_dependedFilePaths (heap worldDeleted 0)
   \<and> ''/a.cpp'' \<notin> fileSystem worldDeleted
   \<and> setDirtyIfDependencyIsMet ''/a.cpp'' aDoc worldDeleted = Inr ((), worldDeleted)
   \<and> ''/a.cpp'' \<in> fileSystem world1
   \<and> setDirtyIfDependencyIsMet ''/a.cpp'' aDoc world1 = Inr ((), worldDirty)"
  using setDirtyIfDependencyIsMet_iff [OF aDoc_ptr, of "''/a.cpp''" worldDeleted]
    setDirtyIfDependencyIsMet_iff [OF aDoc_ptr, of "''/a.cpp''" world1]
  by (simp add: scenario_defs)

subsection \<open>Incorporating the result of an update\<close>

text \<open>
  C2. For a document with backing state and a result that reports a failure,
  \<open>incorporateUpdaterResult\<close> sets \<open>hasParseOrReparseFailed\<close>, clears
  \<open>needsToBeReparsed\<close> and returns: the world afterwards differs from the one before in
  these two fields only, so the last project part change time point, the depended file
  paths and the watched files of the document set are as they were. Afterwards
  \<open>isIntact()\<close> returns false.
\<close>
theorem incorporateUpdaterResult_failed:
  assumes "d_ptr D = Some a" and "res_hasParseOrReparseFailed r"
  shows "\<exists>w'. incorporateUpdaterResult r D w = Inr ((), w')
     \<and> w' = w\<lparr>heap := (heap w)(a := (heap w a)
              \<lparr>d_hasParseOrReparseFailed := True, d_needsToBeReparsed := False\<rparr>)\<rparr>
     \<and> d_hasParseOrReparseFailed (heap w' a)
     \<and> \<not> d_needsToBeReparsed (heap w' a)
     \<and> d_lastProjectPartChangeTimePoint (heap w' a) = d_lastProjectPartChangeTimePoint (heap w a)
     \<and> d_dependedFilePaths (heap w' a) = d_dependedFilePaths (heap w a)
     \<and> documents w' = documents w
     \<and> isIntact D w' = Inr (False, w')"
  using assms
  by (simp add: incorporateUpdaterResult_def isIntact_def fileExists_def M_defs)

theorem incorporateUpdaterResult_failed_witness:
  "d_ptr aDoc = Some 0 \<and> res_hasParseOrReparseFailed failedResult
   \<and> isIntact aDoc worldDirty = Inr (True, worldDirty)
   \<and> (\<exists>w'. incorporateUpdaterResult failedResult aDoc worldDirty = Inr ((), w')
     \<and> w' = worldDirty\<lparr>heap := (heap worldDirty)(0 := (heap worldDirty 0)
              \<lparr>d_hasParseOrReparseFailed := True, d_needsToBeReparsed := False\<rparr>)\<rparr>
     \<and> d_hasParseOrReparseFailed (heap w' 0)
     \<and> \<not> d_needsToBeReparsed (heap w' 0)
     \<and> d_lastProjectPartChangeTimePoint (heap w' 0) = d_lastProjectPartChangeTimePoint (heap worldDirty 0)
     \<and> d_dependedFilePaths (heap w' 0) = d_dependedFilePaths (heap worldDirty 0)
     \<and> documents w' = documents worldDirty
     \<and> isIntact aDoc w' = Inr (False, w'))"
proof -
  have failed: "res_hasParseOrReparseFailed failedResult"
    by (simp add: failedResult_def)
  have intact: "isIntact aDoc worldDirty = Inr (True, worldDirty)"
    by (simp add: isIntact_def fileExists_def M_defs scenario_defs)
  show ?thesis
    using incorporateUpdaterResult_failed [OF aDoc_ptr failed, of worldDirty]
      aDoc_ptr failed intact
    by blast
qed

text \<open>
  C1. For a document with backing state and a result that reports no failure and a
  reparse, \<open>incorporateUpdaterResult\<close> leaves \<open>needsToBeReparsed\<close> false when the time
  point recorded in the result equals the document's \<open>needsToBeReparsedChangeTimePoint\<close>,
  and leaves the flag as it was otherwise. In particular: the update input is built (it
  carries the document's time point, which is no later than the clock), the clock
  advances by \<open>k > 0\<close> and \<open>setDirty()\<close> is called, storing a strictly later time point;
  a reparse result stamped with the time point of the input is then incorporated, and
  \<open>needsToBeReparsed\<close> is still true.
\<close>
theorem incorporateUpdaterResult_reparsed:
  assumes "d_ptr D = Some a"
    and "\<not> res_hasParseOrReparseFailed r"
    and "res_reparsed r"
  shows "(\<exists>w'. incorporateUpdaterResult r D w = Inr ((), w')
          \<and> d_needsToBeReparsed (heap w' a) =
              (if res_needsToBeReparsedChangeTimePoint r
                    = d_needsToBeReparsedChangeTimePoint (heap w a)
               then False else d_needsToBeReparsed (heap w a)))
    \<and> (createUpdateInput D w = Inr (inp, wr)
        \<and> res_needsToBeReparsedChangeTimePoint r = in_needsToBeReparsedChangeTimePoint inp
        \<and> d_needsToBeReparsedChangeTimePoint (heap w a) \<le> steadyClock w
        \<and> 0 < k
       \<longrightarrow> (\<exists>w2 w3. setDirty D (elapse k wr) = Inr ((), w2)
              \<and> res_needsToBeReparsedChangeTimePoint r
                   < d_needsToBeReparsedChangeTimePoint (heap w2 a)
              \<and> incorporateUpdaterResult r D w2 = Inr ((), w3)
              \<and> d_needsToBeReparsed (heap w3 a)))"
proof (intro conjI impI)
  show "\<exists>w'. incorporateUpdaterResult r D w = Inr ((), w')
          \<and> d_needsToBeReparsed (heap w' a) =
              (if res_needsToBeReparsedChangeTimePoint r
                    = d_needsToBeReparsedChangeTimePoint (heap w a)
               then False else d_needsToBeReparsed (heap w a))"
    using incorporate_succeeded [OF assms(1,2), of w] assms(3) by auto
next
  assume h: "createUpdateInput D w = Inr (inp, wr)
        \<and> res_needsToBeReparsedChangeTimePoint r = in_needsToBeReparsedChangeTimePoint inp
        \<and> d_needsToBeReparsedChangeTimePoint (heap w a) \<le> steadyClock w
        \<and> 0 < k"
  from h have wr: "wr = w"
    and stamp: "res_needsToBeReparsedChangeTimePoint r = d_needsToBeReparsedChangeTimePoint (heap w a)"
    by (auto simp: createUpdateInput_Some [OF assms(1)])
  define w2 where "w2 = (elapse k w)\<lparr>heap := (heap (elapse k w))(a := (heap (elapse k w) a)
       \<lparr>d_needsToBeReparsedChangeTimePoint := steadyClock (elapse k w),
        d_needsToBeReparsed := True\<rparr>)\<rparr>"
  have dirty: "setDirty D (elapse k wr) = Inr ((), w2)"
    unfolding wr w2_def by (rule setDirty_Some [OF assms(1)])
  have later: "res_needsToBeReparsedChangeTimePoint r
                 < d_needsToBeReparsedChangeTimePoint (heap w2 a)"
    using h stamp by (simp add: w2_def elapse_def)
  have flag: "d_needsToBeReparsed (heap w2 a)"
    by (simp add: w2_def)
  from incorporate_succeeded [OF assms(1,2), of w2] later flag
  obtain w3 where "incorporateUpdaterResult r D w2 = Inr ((), w3)"
    and "d_needsToBeReparsed (heap w3 a)"
    by auto
  with dirty later
  show "\<exists>w2 w3. setDirty D (elapse k wr) = Inr ((), w2)
              \<and> res_needsToBeReparsedChangeTimePoint r
                   < d_needsToBeReparsedChangeTimePoint (heap w2 a)
              \<and> incorporateUpdaterResult r D w2 = Inr ((), w3)
              \<and> d_needsToBeReparsed (heap w3 a)"
    by blast
qed

theorem incorporateUpdaterResult_reparsed_witness:
  "d_ptr aDoc = Some 0
   \<and> \<not> res_hasParseOrReparseFailed reparsedResult
   \<and> res_reparsed reparsedResult
   \<and> d_needsToBeReparsed (heap worldDirty 0)
   \<and> (\<exists>w'. incorporateUpdaterResult reparsedResult aDoc worldDirty = Inr ((), w')
          \<and> \<not> d_needsToBeReparsed (heap w' 0))
   \<and> (\<exists>inp. createUpdateInput aDoc worldDirty = Inr (inp, worldDirty)
          \<and> res_needsToBeReparsedChangeTimePoint reparsedResult
               = in_needsToBeReparsedChangeTimePoint inp)
   \<and> d_needsToBeReparsedChangeTimePoint (heap worldDirty 0) \<le> steadyClock worldDirty
   \<and> (\<exists>w2 w3. setDirty aDoc (elapse 5 worldDirty) = Inr ((), w2)
          \<and> res_needsToBeReparsedChangeTimePoint reparsedResult
               < d_needsToBeReparsedChangeTimePoint (heap w2 0)
          \<and> incorporateUpdaterResult reparsedResult aDoc w2 = Inr ((), w3)
          \<and> d_needsToBeReparsed (heap w3 0))"
proof -
  have ok: "\<not> res_hasParseOrReparseFailed reparsedResult"
    and rep: "res_reparsed reparsedResult"
    by (simp_all add: reparsedResult_def)
  have dirty: "d_needsToBeReparsed (heap worldDirty 0)"
    and same: "res_needsToBeReparsedChangeTimePoint reparsedResult
                 = d_needsToBeReparsedChangeTimePoint (heap worldDirty 0)"
    and past: "d_needsToBeReparsedChangeTimePoint (heap worldDirty 0) \<le> steadyClock worldDirty"
    by (simp_all add: scenario_defs)
  have "\<exists>inp. createUpdateInput aDoc worldDirty = Inr (inp, worldDirty)
          \<and> res_needsToBeReparsedChangeTimePoint reparsedResult
               = in_needsToBeReparsedChangeTimePoint inp"
    using same by (simp add: createUpdateInput_Some [OF aDoc_ptr])
  then obtain inp where inp: "createUpdateInput aDoc worldDirty = Inr (inp, worldDirty)"
    and stamp: "res_needsToBeReparsedChangeTimePoint reparsedResult
                  = in_needsToBeReparsedChangeTimePoint inp"
    by blast
  have k: "(0::nat) < 5"
    by simp
  note inst = incorporateUpdaterResult_reparsed [OF aDoc_ptr ok rep,
      of worldDirty inp worldDirty 5]
  from inst same have first:
    "\<exists>w'. incorporateUpdaterResult reparsedResult aDoc worldDirty = Inr ((), w')
          \<and> \<not> d_needsToBeReparsed (heap w' 0)"
    by auto
  from inst inp stamp past k have second:
    "\<exists>w2 w3. setDirty aDoc (elapse 5 worldDirty) = Inr ((), w2)
          \<and> res_needsToBeReparsedChangeTimePoint reparsedResult
               < d_needsToBeReparsedChangeTimePoint (heap w2 0)
          \<and> incorporateUpdaterResult reparsedResult aDoc w2 = Inr ((), w3)
          \<and> d_needsToBeReparsed (heap w3 0)"
    by blast
  from aDoc_ptr ok rep dirty first inp stamp past second show ?thesis
    by blast
qed

text \<open>
  C5, as stated, fails. The dirty document of the scenario is parsed, and the parser
  reports a successful parse with the dependencies \<open>/a.cpp\<close> and \<open>/a.h\<close>; then the
  default result of an update that did nothing (no failure, no reparse, no parse time
  point, no dependencies) is incorporated. \<open>needsToBeReparsed\<close> is true after
  \<open>parse()\<close> and still true after the incorporation, and the depended file paths are
  those of the parse, not the empty set of the incorporated result.
\<close>
theorem incorporate_after_parse_counterexample:
  "\<exists>w1 w2. parse (parserReturning parsedResult) aDoc worldDirty = Inr ((), w1)
     \<and> d_needsToBeReparsed (heap w1 0)
     \<and> \<not> res_hasParseOrReparseFailed nothingResult
     \<and> \<not> res_reparsed nothingResult
     \<and> incorporateUpdaterResult nothingResult aDoc w1 = Inr ((), w2)
     \<and> d_needsToBeReparsed (heap w2 0)
     \<and> d_dependedFilePaths (heap w2 0) = {''/a.cpp'', ''/a.h''}
     \<and> res_dependedOnFilePaths nothingResult = {}
     \<and> d_dependedFilePaths (heap w2 0) \<noteq> res_dependedOnFilePaths nothingResult"
  by (simp add: parse_def createUpdateInput_def runParser_def incorporateUpdaterResult_def
      accessor_defs M_defs scenario_defs)

text \<open>
  C5, amended. For a document with backing state, incorporating a result that reports
  no failure and no reparse, right after \<open>parse()\<close>, leaves \<open>needsToBeReparsed\<close> as
  \<open>parse()\<close> left it; the depended file paths become exactly those of the result when the
  result has its parse time point set, and stay as they were otherwise.
\<close>
theorem incorporateUpdaterResult_after_parse:
  assumes "d_ptr D = Some a"
    and "parse tuParse D w0 = Inr ((), w)"
    and "\<not> res_hasParseOrReparseFailed r"
    and "\<not> res_reparsed r"
  shows "\<exists>w'. incorporateUpdaterResult r D w = Inr ((), w')
     \<and> d_needsToBeReparsed (heap w' a) = d_needsToBeReparsed (heap w a)
     \<and> d_dependedFilePaths (heap w' a) =
          (if res_parseTimePointIsSet r then res_dependedOnFilePaths r
           else d_dependedFilePaths (heap w a))"
  using incorporate_succeeded [OF assms(1,3), of w] assms(4) by auto

theorem incorporateUpdaterResult_after_parse_witness:
  "d_ptr aDoc = Some 0
   \<and> \<not> res_hasParseOrReparseFailed parsedResult
   \<and> \<not> res_reparsed parsedResult
   \<and> res_parseTimePointIsSet parsedResult
   \<and> (\<exists>w. parse (parserReturning nothingResult) aDoc world1 = Inr ((), w)
        \<and> (\<exists>w'. incorporateUpdaterResult parsedResult aDoc w = Inr ((), w')
             \<and> d_needsToBeReparsed (heap w' 0) = d_needsToBeReparsed (heap w 0)
             \<and> d_dependedFilePaths (heap w' 0) = res_dependedOnFilePaths parsedResult))"
proof -
  have ok: "\<not> res_hasParseOrReparseFailed parsedResult"
    and norep: "\<not> res_reparsed parsedResult"
    and isSet: "res_parseTimePointIsSet parsedResult"
    by (simp_all add: parsedResult_def)
  obtain w where p: "parse (parserReturning nothingResult) aDoc world1 = Inr ((), w)"
    by (simp add: parse_def createUpdateInput_def runParser_def incorporateUpdaterResult_def
        accessor_defs M_defs scenario_defs)
  from incorporateUpdaterResult_after_parse [OF aDoc_ptr p ok norep] isSet
  have "\<exists>w'. incorporateUpdaterResult parsedResult aDoc w = Inr ((), w')
             \<and> d_needsToBeReparsed (heap w' 0) = d_needsToBeReparsed (heap w 0)
             \<and> d_dependedFilePaths (heap w' 0) = res_dependedOnFilePaths parsedResult"
    by simp
  with aDoc_ptr ok norep isSet p show ?thesis
    by blast
qed

subsection \<open>The null document\<close>

text \<open>
  C6, as stated, fails: on a null document \<open>isIntact()\<close> does not throw
  \<open>DocumentIsNullException\<close>; it returns false.
\<close>
theorem isIntact_null_counterexample:
  "d_ptr nullDoc = None
   \<and> isIntact nullDoc world1 = Inr (False, world1)
   \<and> isIntact nullDoc world1 \<noteq> Inl DocumentIsNullException"
  by (simp add: isIntact_def M_defs nullDoc_def reset_def)

text \<open>
  C6, amended. On a null document every method that starts with \<open>checkIfNull()\<close>, itself
  or through the first method it calls, throws \<open>DocumentIsNullException\<close>: \<open>filePath\<close>,
  \<open>fileArguments\<close>, \<open>fileContainer\<close>, \<open>projectPartId\<close>, \<open>projectPart\<close>,
  \<open>lastProjectPartChangeTimePoint\<close>, \<open>isProjectPartOutdated\<close>, \<open>documentRevision\<close>,
  \<open>setDocumentRevision\<close>, \<open>isUsedByCurrentEditor\<close>, \<open>setIsUsedByCurrentEditor\<close>,
  \<open>isVisibleInEditor\<close>, \<open>setIsVisibleInEditor\<close>, \<open>isNeededReparseChangeTimePoint\<close>,
  \<open>isNeedingReparse\<close>, \<open>setDirtyIfProjectPartIsOutdated\<close>, \<open>createUpdateInput\<close>,
  \<open>createUpdater\<close>, \<open>translationUnit\<close>, \<open>parse\<close>, \<open>reparse\<close> and
  \<open>dependedFilePaths\<close>. \<open>isIntact()\<close> returns false without throwing, \<open>isNull()\<close>
  returns true and \<open>reset()\<close> leaves the handle null.
\<close>
theorem null_document_rejected:
  assumes "d_ptr D = None"
  shows "filePath D w = Inl DocumentIsNullException
     \<and> fileArguments D w = Inl DocumentIsNullException
     \<and> fileContainer D w = Inl DocumentIsNullException
     \<and> projectPartId D w = Inl DocumentIsNullException
     \<and> projectPart D w = Inl DocumentIsNullException
     \<and> lastProjectPartChangeTimePoint D w = Inl DocumentIsNullException
     \<and> isProjectPartOutdated D w = Inl DocumentIsNullException
     \<and> documentRevision D w = Inl DocumentIsNullException
     \<and> setDocumentRevision revision D w = Inl DocumentIsNullException
     \<and> isUsedByCurrentEditor D w = Inl DocumentIsNullException
     \<and> setIsUsedByCurrentEditor used D w = Inl DocumentIsNullException
     \<and> isVisibleInEditor D w = Inl DocumentIsNullException
     \<and> setIsVisibleInEditor visible D w = Inl DocumentIsNullException
     \<and> isNeededReparseChangeTimePoint D w = Inl DocumentIsNullException
     \<and> isNeedingReparse D w = Inl DocumentIsNullException
     \<and> setDirtyIfProjectPartIsOutdated D w = Inl DocumentIsNullException
     \<and> createUpdateInput D w = Inl DocumentIsNullException
     \<and> createUpdater D w = Inl DocumentIsNullException
     \<and> translationUnit D w = Inl DocumentIsNullException
     \<and> parse tuParse D w = Inl DocumentIsNullException
     \<and> reparse tuReparse D w = Inl DocumentIsNullException
     \<and> dependedFilePaths D w = Inl DocumentIsNullException
     \<and> isIntact D w = Inr (False, w)
     \<and> isNull D w = Inr (True, w)
     \<and> isNull (reset D) w = Inr (True, w)"
  using assms
  by (simp add: accessor_defs setDirtyIfProjectPartIsOutdated_def createUpdateInput_def
      createUpdater_def parse_def reparse_def dependedFilePaths_def isIntact_def reset_def
      M_defs)

theorem null_document_rejected_witness:
  "d_ptr nullDoc = None
     \<and> filePath nullDoc world1 = Inl DocumentIsNullException
     \<and> fileArguments nullDoc world1 = Inl DocumentIsNullException
     \<and> fileContainer nullDoc world1 = Inl DocumentIsNullException
     \<and> projectPartId nullDoc world1 = Inl DocumentIsNullException
     \<and> projectPart nullDoc world1 = Inl DocumentIsNullException
     \<and> lastProjectPartChangeTimePoint nullDoc world1 = Inl DocumentIsNullException
     \<and> isProjectPartOutdated nullDoc world1 = Inl DocumentIsNullException
     \<and> documentRevision nullDoc world1 = Inl DocumentIsNullException
     \<and> setDocumentRevision 1 nullDoc world1 = Inl DocumentIsNullException
     \<and> isUsedByCurrentEditor nullDoc world1 = Inl DocumentIsNullException
     \<and> setIsUsedByCurrentEditor True nullDoc world1 = Inl DocumentIsNullException
     \<and> isVisibleInEditor nullDoc world1 = Inl DocumentIsNullException
     \<and> setIsVisibleInEditor True nullDoc world1 = Inl DocumentIsNullException
     \<and> isNeededReparseChangeTimePoint nullDoc world1 = Inl DocumentIsNullException
     \<and> isNeedingReparse nullDoc world1 = Inl DocumentIsNullException
     \<and> setDirtyIfProjectPartIsOutdated nullDoc world1 = Inl DocumentIsNullException
     \<and> createUpdateInput nullDoc world1 = Inl DocumentIsNullException
     \<and> createUpdater nullDoc world1 = Inl DocumentIsNullException
     \<and> translationUnit nullDoc world1 = Inl DocumentIsNullException
     \<and> parse (parserReturning parsedResult) nullDoc world1 = Inl DocumentIsNullException
     \<and> reparse (parserReturning reparsedResult) nullDoc world1 = Inl DocumentIsNullException
     \<and> dependedFilePaths nullDoc world1 = Inl DocumentIsNullException
     \<and> isIntact nullDoc world1 = Inr (False, world1)
     \<and> isNull nullDoc world1 = Inr (True, world1)
     \<and> isNull (reset nullDoc) world1 = Inr (True, world1)"
proof -
  have null: "d_ptr nullDoc = None"
    by (simp add: nullDoc_def reset_def)
  show ?thesis
    using null null_document_rejected [OF null, of world1 1 True True
        "parserReturning parsedResult" "parserReturning reparsedResult"]
    by simp
qed

end
